theory Spec2Isabelle
  imports Main "HOL-Library.Word"
begin

section \<open>JavaScript strings\<close>

text \<open>
  A JavaScript string is a sequence of UTF-16 code units; \<open>length\<close> counts code units
  and \<open>===\<close> compares them one by one. String literals of the source are ASCII and are
  written through \<open>utf16\<close>.
\<close>

type_synonym jsstring = "16 word list"

definition utf16 :: "string \<Rightarrow> jsstring" where
  "utf16 s = map (\<lambda>c. of_nat (of_char c)) s"

text \<open>
  \<open>String.prototype.trim\<close> removes leading and trailing WhiteSpace and LineTerminator
  code points: TAB, LF, VT, FF, CR, SPACE, NBSP, U+1680, U+2000..U+200A, U+2028, U+2029,
  U+202F, U+205F, U+3000 and U+FEFF. All of them are single code units.
\<close>

definition isWhiteSpace :: "16 word \<Rightarrow> bool" where
  "isWhiteSpace c \<longleftrightarrow>
     List.member [0x0009, 0x000A, 0x000B, 0x000C, 0x000D, 0x0020, 0x00A0, 0x1680,
                  0x2028, 0x2029, 0x202F, 0x205F, 0x3000, 0xFEFF] c
     \<or> (0x2000 \<le> c \<and> c \<le> 0x200A)"

definition trim :: "jsstring \<Rightarrow> jsstring" where
  "trim s = rev (dropWhile isWhiteSpace (rev (dropWhile isWhiteSpace s)))"

section \<open>The job-info schema (schemas.ts)\<close>

text \<open>
  \<open>JobInfoFormData\<close> is the type zod infers from \<open>jobInfoSchema\<close>. The experience level
  has the type of the members of \<open>experienceLevels\<close>, which is declared outside the
  sources at hand: it is the type parameter \<open>'lvl\<close>, so \<open>z.enum(experienceLevels)\<close> accepts
  every typed draft. \<open>hasResume\<close> is optional: \<open>None\<close> is JavaScript's \<open>undefined\<close>.
  \<open>title\<close> is nullable: \<open>None\<close> is \<open>null\<close>.
\<close>

record 'lvl JobInfoFormData =
  name :: jsstring
  title :: "jsstring option"
  experienceLevel :: 'lvl
  technologies :: "jsstring list"
  description :: jsstring
  hasResume :: "bool option"

datatype form_field =
  name_field | title_field | experienceLevel_field | technologies_field
  | description_field | hasResume_field

datatype ZodIssueCode = too_small | custom

text \<open>
  An issue's message is the one the schema passes, or the library's default text when
  the schema passes none (as for \<open>title\<close>).
\<close>

datatype message = Message string | DefaultMessage

record issue =
  issue_code :: ZodIssueCode
  issue_message :: message
  issue_path :: form_field

text \<open>\<open>z.string().min(1, msg)\<close> on a value that is a string: an issue when its length is below 1.\<close>

definition string_min1 :: "message \<Rightarrow> form_field \<Rightarrow> jsstring \<Rightarrow> issue list" where
  "string_min1 msg p s =
     (if length s < 1
      then [\<lparr>issue_code = too_small, issue_message = msg, issue_path = p\<rparr>]
      else [])"

text \<open>\<open>z.string().min(1).nullable()\<close>: \<open>null\<close> passes, a string is checked.\<close>

definition nullable_string_min1 :: "form_field \<Rightarrow> jsstring option \<Rightarrow> issue list" where
  "nullable_string_min1 p v =
     (case v of None \<Rightarrow> [] | Some s \<Rightarrow> string_min1 DefaultMessage p s)"

text \<open>
  The callback of \<open>superRefine\<close> (schemas.ts, lines 13 to 25). \<open>!data.hasResume\<close> holds for
  \<open>false\<close> and for \<open>undefined\<close>; \<open>!data.description\<close> holds for the empty string.
\<close>

definition superRefine :: "'lvl JobInfoFormData \<Rightarrow> issue list" where
  "superRefine data =
     (if hasResume data \<noteq> Some True
         \<and> (description data = [] \<or> length (trim (description data)) = 0)
      then [\<lparr>issue_code = custom, issue_message = Message ''Required'',
             issue_path = description_field\<rparr>]
      else [])"

text \<open>
  The issues \<open>jobInfoSchema\<close> reports on a typed draft, in the order of the schema's
  fields. The length checks leave the object usable, so the refinement always runs.
  \<open>technologies\<close> (an array of strings), \<open>description\<close> (a string) and \<open>hasResume\<close>
  carry no check of their own.
\<close>

definition jobInfoSchema :: "'lvl JobInfoFormData \<Rightarrow> issue list" where
  "jobInfoSchema data =
     string_min1 (Message ''Required'') name_field (name data)
     @ nullable_string_min1 title_field (title data)
     @ superRefine data"

text \<open>The fields that carry an error, and the (field, message) pairs reported.\<close>

definition error_fields :: "'lvl JobInfoFormData \<Rightarrow> form_field list" where
  "error_fields data = map issue_path (jobInfoSchema data)"

definition reported :: "'lvl JobInfoFormData \<Rightarrow> (form_field \<times> message) list" where
  "reported data = map (\<lambda>i. (issue_path i, issue_message i)) (jobInfoSchema data)"

text \<open>The form's default values when no job info is given (JobInfoForm.tsx, lines 66 to 73).\<close>

definition defaultValues :: "jsstring JobInfoFormData" where
  "defaultValues =
     \<lparr>name = [], title = None, experienceLevel = utf16 ''junior'', technologies = [],
      description = [], hasResume = Some False\<rparr>"

section \<open>The form component (JobInfoForm.tsx)\<close>

text \<open>A selected file, with the two properties the component reads.\<close>

record File =
  file_name :: jsstring
  file_type :: jsstring

text \<open>
  The notifications the component raises through \<open>toast\<close>. The success message is
  "Found n technologies in your resume", kept as its number \<open>n\<close>.
\<close>

datatype toast = toast_error string | toast_warning string | toast_success_found nat

text \<open>
  The component's state: the form's values, the four \<open>useState\<close> cells (lines 76 to
  79), and the log of the notifications raised so far.
\<close>

record 'lvl form_state =
  formValues :: "'lvl JobInfoFormData"
  techInput :: jsstring
  resumeFile :: "File option"
  isParsingResume :: bool
  useResumeMode :: bool
  toasts :: "toast list"

definition mount :: "'lvl JobInfoFormData \<Rightarrow> 'lvl form_state" where
  "mount vals =
     \<lparr>formValues = vals, techInput = [], resumeFile = None, isParsingResume = False,
      useResumeMode = False, toasts = []\<rparr>"

definition AVAILABLE_TECHNOLOGIES :: "jsstring list" where
  "AVAILABLE_TECHNOLOGIES =
     map utf16 [''React'', ''Next.js'', ''TypeScript'', ''JavaScript'', ''Node.js'', ''Python'',
       ''PostgreSQL'', ''MongoDB'', ''Drizzle ORM'', ''Prisma'', ''TailwindCSS'', ''Docker'',
       ''AWS'', ''GraphQL'', ''REST API'']"

text \<open>\<open>addTechnology\<close> (lines 83 to 89).\<close>

definition addTechnology :: "jsstring \<Rightarrow> 'lvl form_state \<Rightarrow> 'lvl form_state" where
  "addTechnology tech st =
     (let currentTechs = technologies (formValues st);
          st1 = (if tech \<notin> set currentTechs
                 then st\<lparr>formValues := (formValues st)\<lparr>technologies := currentTechs @ [tech]\<rparr>\<rparr>
                 else st)
      in st1\<lparr>techInput := []\<rparr>)"

text \<open>\<open>removeTechnology\<close> (lines 92 to 98).\<close>

definition removeTechnology :: "jsstring \<Rightarrow> 'lvl form_state \<Rightarrow> 'lvl form_state" where
  "removeTechnology tech st =
     (let currentTechs = technologies (formValues st)
      in st\<lparr>formValues := (formValues st)\<lparr>technologies := filter (\<lambda>t. t \<noteq> tech) currentTechs\<rparr>\<rparr>)"

text \<open>\<open>clearResume\<close> (lines 156 to 161).\<close>

definition clearResume :: "'lvl form_state \<Rightarrow> 'lvl form_state" where
  "clearResume st =
     st\<lparr>resumeFile := None, useResumeMode := False,
        formValues := (formValues st)\<lparr>technologies := [], hasResume := Some False\<rparr>\<rparr>"

subsection \<open>\<open>handleResumeUpload\<close> (lines 101 to 153)\<close>

text \<open>
  The handler is asynchronous with one suspension point, the \<open>fetch\<close>. Its first part
  runs up to the request (lines 104 to 125) and returns the new state together with the
  file it posts to \<open>/api/parse-resume\<close>, or \<open>None\<close> when it returns without a request.
  The event carries \<open>event.target.files?.[0]\<close>.
\<close>

definition handleResumeUpload_send ::
    "File option \<Rightarrow> 'lvl form_state \<Rightarrow> 'lvl form_state \<times> File option" where
  "handleResumeUpload_send ev st =
     (case ev of
        None \<Rightarrow> (st, None)
      | Some file \<Rightarrow>
          if file_type file \<noteq> utf16 ''application/pdf''
          then (st\<lparr>toasts := toasts st @ [toast_error ''Please upload a PDF file'']\<rparr>, None)
          else (st\<lparr>resumeFile := Some file, isParsingResume := True, useResumeMode := True,
                   formValues := (formValues st)\<lparr>hasResume := Some True\<rparr>\<rparr>,
                Some file))"

text \<open>
  What the request comes back with. The \<open>fetch\<close> rejects (a transport error), or it
  resolves with a status and a body. The body is not JSON (\<open>response.json()\<close> throws),
  or the JSON value \<open>null\<close> (reading \<open>data.skills\<close> throws), or a JSON value whose
  \<open>skills\<close> is missing, falsy or not an array, or one whose \<open>skills\<close> is an array; the
  array's elements are taken to be strings, as the form's \<open>technologies\<close> field is typed.
\<close>

datatype json_body =
  not_json | json_null | json_without_skills | json_skills "jsstring list"

datatype fetch_outcome = fetch_rejected | fetch_response nat json_body

text \<open>\<open>response.ok\<close>: the status is in the range 200 to 299.\<close>

definition response_ok :: "nat \<Rightarrow> bool" where
  "response_ok status \<longleftrightarrow> 200 \<le> status \<and> status \<le> 299"

text \<open>The \<open>catch\<close> block followed by the \<open>finally\<close> block (lines 145 to 152).\<close>

definition catch_finally :: "'lvl form_state \<Rightarrow> 'lvl form_state" where
  "catch_finally st =
     st\<lparr>toasts := toasts st @ [toast_error ''Failed to parse resume. Please try again.''],
        useResumeMode := False, resumeFile := None, isParsingResume := False\<rparr>"

text \<open>
  The second part of the handler: what runs once the \<open>fetch\<close> has settled (lines 127
  to 152), on the state the component has by then.
\<close>

fun handleResumeUpload_receive :: "fetch_outcome \<Rightarrow> 'lvl form_state \<Rightarrow> 'lvl form_state" where
  "handleResumeUpload_receive fetch_rejected st = catch_finally st"
| "handleResumeUpload_receive (fetch_response status body) st =
     (if \<not> response_ok status then catch_finally st
      else case body of
        not_json \<Rightarrow> catch_finally st
      | json_null \<Rightarrow> catch_finally st
      | json_skills skills \<Rightarrow>
          st\<lparr>formValues := (formValues st)\<lparr>technologies := skills\<rparr>,
             toasts := toasts st @ [toast_success_found (length skills)],
             isParsingResume := False\<rparr>
      | json_without_skills \<Rightarrow>
          st\<lparr>toasts := toasts st @ [toast_warning ''No technologies found in resume''],
             isParsingResume := False\<rparr>)"

text \<open>The whole handler, when nothing else runs between the request and its outcome.\<close>

definition handleResumeUpload ::
    "File option \<Rightarrow> fetch_outcome \<Rightarrow> 'lvl form_state \<Rightarrow> 'lvl form_state" where
  "handleResumeUpload ev outcome st =
     (case handleResumeUpload_send ev st of
        (st1, None) \<Rightarrow> st1
      | (st1, Some file) \<Rightarrow> handleResumeUpload_receive outcome st1)"

text \<open>
  The outcomes on which the \<open>try\<close> block throws: a rejected \<open>fetch\<close>, a status outside
  200 to 299, a body that is not JSON, or the JSON \<open>null\<close>.
\<close>

fun throws :: "fetch_outcome \<Rightarrow> bool" where
  "throws fetch_rejected = True"
| "throws (fetch_response status body) =
     (\<not> response_ok status \<or> body = not_json \<or> body = json_null)"

text \<open>The capture state is manual: no resume mode, no file attached, nothing pending.\<close>

definition manual :: "'lvl form_state \<Rightarrow> bool" where
  "manual st \<longleftrightarrow> \<not> useResumeMode st \<and> resumeFile st = None \<and> \<not> isParsingResume st"

subsection \<open>Deduplication as the specification words it\<close>

text \<open>
  The specification's \<open>replaceAll\<close> deduplicates a list of names, keeping each name at
  the position of its first occurrence. The component has no such function; this one
  follows the specification's words, to compare the component's behaviour with.
\<close>

fun dedupe_first :: "'a list \<Rightarrow> 'a list" where
  "dedupe_first [] = []"
| "dedupe_first (x # xs) = x # dedupe_first (filter (\<lambda>y. y \<noteq> x) xs)"

subsection \<open>The page: the component with its controls and its pending requests\<close>

text \<open>
  What a user can do with the rendered form, and what the network can do to it. A
  control that is disabled or not rendered gives no event:
  \<^item> the technology select is disabled in resume mode and offers the available
    technologies that are not selected yet (lines 320 to 339);
  \<^item> a remove button is rendered with each badge and is disabled in resume mode (lines
    344 to 361); the badges are keyed by the technology's name, so with a repeated name
    a badge can outlive its entry, and a click is taken for any name: for a name that
    is not in the list \<open>removeTechnology\<close> leaves the list as it is;
  \<^item> the file input is disabled while a resume is being parsed (line 277);
  \<^item> the clear button is rendered when a file is attached and is disabled while a resume
    is being parsed (lines 279 to 297);
  \<^item> a request that is in flight may settle at any time, with any outcome.
  \<open>in_flight\<close> lists the requests posted and not yet settled.
\<close>

datatype ui_event =
  select_technology jsstring | click_remove jsstring | change_resume "File option"
  | click_clear | fetch_settles nat fetch_outcome

record 'lvl page =
  component :: "'lvl form_state"
  in_flight :: "File list"

fun ui_step :: "ui_event \<Rightarrow> 'lvl page \<Rightarrow> 'lvl page option" where
  "ui_step (select_technology tech) p =
     (if \<not> useResumeMode (component p) \<and> tech \<in> set AVAILABLE_TECHNOLOGIES
         \<and> tech \<notin> set (technologies (formValues (component p)))
      then Some (p\<lparr>component := addTechnology tech (component p)\<rparr>) else None)"
| "ui_step (click_remove tech) p =
     (if \<not> useResumeMode (component p)
      then Some (p\<lparr>component := removeTechnology tech (component p)\<rparr>) else None)"
| "ui_step (change_resume ev) p =
     (if isParsingResume (component p) then None
      else case handleResumeUpload_send ev (component p) of
        (st1, None) \<Rightarrow> Some (p\<lparr>component := st1\<rparr>)
      | (st1, Some file) \<Rightarrow> Some \<lparr>component = st1, in_flight = in_flight p @ [file]\<rparr>)"
| "ui_step click_clear p =
     (if resumeFile (component p) \<noteq> None \<and> \<not> isParsingResume (component p)
      then Some (p\<lparr>component := clearResume (component p)\<rparr>) else None)"
| "ui_step (fetch_settles i outcome) p =
     (if i < length (in_flight p)
      then Some \<lparr>component = handleResumeUpload_receive outcome (component p),
                 in_flight = take i (in_flight p) @ drop (Suc i) (in_flight p)\<rparr>
      else None)"

fun run :: "ui_event list \<Rightarrow> 'lvl page \<Rightarrow> 'lvl page option" where
  "run [] p = Some p"
| "run (e # es) p = (case ui_step e p of None \<Rightarrow> None | Some p1 \<Rightarrow> run es p1)"


definition page_mount :: "'lvl JobInfoFormData \<Rightarrow> 'lvl page" where
  "page_mount vals = \<lparr>component = mount vals, in_flight = []\<rparr>"

subsection \<open>Sample inputs\<close>

definition resume_pdf :: File where
  "resume_pdf = \<lparr>file_name = utf16 ''resume.pdf'', file_type = utf16 ''application/pdf''\<rparr>"

definition photo_png :: File where
  "photo_png = \<lparr>file_name = utf16 ''photo.png'', file_type = utf16 ''image/png''\<rparr>"


section \<open>Properties of the schema\<close>

lemma trim_Nil: "trim [] = []"
  by (simp add: trim_def)

lemma description_issue_iff:
  "(description_field, m) \<in> set (reported data) \<longleftrightarrow>
     m = Message ''Required'' \<and> hasResume data \<noteq> Some True \<and> trim (description data) = []"
  by (auto simp: reported_def jobInfoSchema_def string_min1_def nullable_string_min1_def
      superRefine_def trim_Nil split: option.splits)

lemma dropWhile_all_iff: "(\<forall>x \<in> set (dropWhile P xs). P x) \<longleftrightarrow> (\<forall>x \<in> set xs. P x)"
  by (induction xs) auto

lemma trim_eq_Nil_iff: "trim s = [] \<longleftrightarrow> (\<forall>c \<in> set s. isWhiteSpace c)"
  unfolding trim_def rev_is_Nil_conv dropWhile_eq_Nil_conv set_rev
  by (rule dropWhile_all_iff)

lemma name_issue_iff:
  "(name_field, m) \<in> set (reported data) \<longleftrightarrow> m = Message ''Required'' \<and> name data = []"
  by (auto simp: reported_def jobInfoSchema_def string_min1_def nullable_string_min1_def
      superRefine_def split: option.splits)

lemma title_issue_iff:
  "(title_field, m) \<in> set (reported data) \<longleftrightarrow> m = DefaultMessage \<and> title data = Some []"
  by (auto simp: reported_def jobInfoSchema_def string_min1_def nullable_string_min1_def
      superRefine_def split: option.splits)

lemma error_fields_reported:
  "p \<in> set (error_fields data) \<longleftrightarrow> (\<exists>m. (p, m) \<in> set (reported data))"
  by (force simp: error_fields_def reported_def)

text \<open>
  C1. The error "Required" is reported on \<open>description\<close> exactly when \<open>hasResume\<close> is
  false and the description is empty after trimming; when \<open>hasResume\<close> is true no error
  at all is reported on \<open>description\<close>, whatever it holds. (The draft is any draft whose
  flag is a boolean \<open>b\<close>; the absent flag is claim C10.)
\<close>

theorem description_required_iff:
  "((description_field, Message ''Required'') \<in> set (reported (data\<lparr>hasResume := Some b\<rparr>))
      \<longleftrightarrow> (b = False \<and> trim (description data) = []))
   \<and> description_field \<notin> set (error_fields (data\<lparr>hasResume := Some True\<rparr>))"
  by (simp add: description_issue_iff error_fields_reported)

text \<open>
  C7, as stated, fails: the name made of one space is empty after trimming, and the
  schema reports nothing on \<open>name\<close>, since \<open>min(1)\<close> counts the code units of the
  untrimmed string.
\<close>

theorem name_whitespace_counterexample:
  "trim (name (defaultValues\<lparr>name := utf16 '' ''\<rparr>)) = []
   \<and> name_field \<notin> set (error_fields (defaultValues\<lparr>name := utf16 '' ''\<rparr>))"
  by (simp add: error_fields_reported name_issue_iff utf16_def trim_def isWhiteSpace_def)

text \<open>
  C7, amended. The error "Required" is reported on \<open>name\<close> exactly when the name is the
  empty string (length zero, no trimming), and no other error is ever reported on
  \<open>name\<close>.
\<close>

theorem name_required_iff:
  "((name_field, Message ''Required'') \<in> set (reported data) \<longleftrightarrow> name data = [])
   \<and> (name_field \<in> set (error_fields data) \<longleftrightarrow> length (name data) = 0)"
  by (simp add: name_issue_iff error_fields_reported)

text \<open>
  C9, as stated, fails: a title that is the empty string is a string shorter than
  \<open>min(1)\<close> allows, and the schema reports it on \<open>title\<close>.
\<close>

theorem title_empty_counterexample:
  "title_field \<in> set (error_fields (defaultValues\<lparr>title := Some []\<rparr>))"
  by (simp add: error_fields_reported title_issue_iff)

text \<open>
  C9, amended. An error is reported on \<open>title\<close> exactly when the title is the empty
  string; a \<open>null\<close> title and every non-empty title carry none.
\<close>

theorem title_error_iff:
  "(title_field \<in> set (error_fields data) \<longleftrightarrow> title data = Some [])
   \<and> title_field \<notin> set (error_fields (data\<lparr>title := None\<rparr>))"
  by (simp add: title_issue_iff error_fields_reported)

text \<open>
  C10. A draft whose \<open>hasResume\<close> is absent validates exactly like the same draft
  with \<open>hasResume = false\<close>: the error "Required" is on \<open>description\<close> when the
  description is empty or all whitespace, and no error is on \<open>description\<close> otherwise.
\<close>

theorem hasResume_absent_like_false:
  "jobInfoSchema (data\<lparr>hasResume := None\<rparr>) = jobInfoSchema (data\<lparr>hasResume := Some False\<rparr>)
   \<and> ((description_field, Message ''Required'') \<in> set (reported (data\<lparr>hasResume := None\<rparr>))
        \<longleftrightarrow> trim (description data) = [])
   \<and> (description_field \<in> set (error_fields (data\<lparr>hasResume := None\<rparr>))
        \<longleftrightarrow> trim (description data) = [])"
  by (simp add: description_issue_iff error_fields_reported)
     (simp add: jobInfoSchema_def superRefine_def)

section \<open>Properties of the form component\<close>

lemma set_dedupe_first: "set (dedupe_first xs) = set xs"
  by (induction xs rule: dedupe_first.induct) auto

lemma distinct_dedupe_first: "distinct (dedupe_first xs)"
  by (induction xs rule: dedupe_first.induct) (auto simp: set_dedupe_first)

lemma dedupe_first_id: "distinct xs \<Longrightarrow> dedupe_first xs = xs"
proof (induction xs)
  case Nil
  then show ?case by simp
next
  case (Cons x xs)
  then have "filter (\<lambda>y. y \<noteq> x) xs = xs"
    by (auto intro: filter_True)
  with Cons show ?case by simp
qed

lemma dedupe_first_eq_iff: "dedupe_first xs = xs \<longleftrightarrow> distinct xs"
  using distinct_dedupe_first [of xs] dedupe_first_id [of xs] by auto

lemma receive_throws:
  "throws outcome \<Longrightarrow> handleResumeUpload_receive outcome st = catch_finally st"
  by (cases outcome) auto

lemma receive_skills:
  "response_ok status \<Longrightarrow>
   handleResumeUpload_receive (fetch_response status (json_skills skills)) st =
     st\<lparr>formValues := (formValues st)\<lparr>technologies := skills\<rparr>,
        toasts := toasts st @ [toast_success_found (length skills)],
        isParsingResume := False\<rparr>"
  by simp

text \<open>
  C3, at the input Go, Go, Rust. The claim has a successful extraction store the
  reported names deduplicated, each at the position of its first occurrence: Go, Rust.
  The component stores the reported array as it is, so the technology list becomes
  Go, Go, Rust, with the repeated name that \<open>addTechnology\<close> would have refused.
\<close>

theorem extraction_stores_repeated_names:
  "technologies (formValues
      (handleResumeUpload (Some resume_pdf)
         (fetch_response 200 (json_skills [utf16 ''Go'', utf16 ''Go'', utf16 ''Rust'']))
         (mount defaultValues)))
     = [utf16 ''Go'', utf16 ''Go'', utf16 ''Rust'']
   \<and> dedupe_first [utf16 ''Go'', utf16 ''Go'', utf16 ''Rust''] = [utf16 ''Go'', utf16 ''Rust'']
   \<and> [utf16 ''Go'', utf16 ''Go'', utf16 ''Rust''] \<noteq> [utf16 ''Go'', utf16 ''Rust'']"
  by (simp add: handleResumeUpload_def handleResumeUpload_send_def resume_pdf_def
      response_ok_def mount_def utf16_def)

text \<open>
  C6. Selecting a file whose media type is not "application/pdf" issues no request,
  raises the error notification "Please upload a PDF file", and changes nothing else:
  the form's values (with \<open>hasResume\<close>) and the capture state are as before, so a
  manual state stays manual.
\<close>

theorem non_pdf_rejected_locally:
  "file_type file \<noteq> utf16 ''application/pdf'' \<Longrightarrow>
   handleResumeUpload_send (Some file) st =
     (st\<lparr>toasts := toasts st @ [toast_error ''Please upload a PDF file'']\<rparr>, None)
   \<and> handleResumeUpload (Some file) outcome st =
       st\<lparr>toasts := toasts st @ [toast_error ''Please upload a PDF file'']\<rparr>
   \<and> manual (fst (handleResumeUpload_send (Some file) st)) = manual st
   \<and> formValues (fst (handleResumeUpload_send (Some file) st)) = formValues st"
  by (simp add: handleResumeUpload_send_def handleResumeUpload_def manual_def)

theorem non_pdf_rejected_locally_witness:
  "file_type photo_png \<noteq> utf16 ''application/pdf''
   \<and> handleResumeUpload_send (Some photo_png) (mount defaultValues) =
     ((mount defaultValues)\<lparr>toasts := [toast_error ''Please upload a PDF file'']\<rparr>, None)
   \<and> manual (mount defaultValues)
   \<and> manual (fst (handleResumeUpload_send (Some photo_png) (mount defaultValues)))
   \<and> hasResume (formValues (fst (handleResumeUpload_send (Some photo_png) (mount defaultValues))))
       = Some False"
proof -
  have ne: "file_type photo_png \<noteq> utf16 ''application/pdf''"
    by (simp add: photo_png_def utf16_def)
  have m: "manual (mount defaultValues)"
    by (simp add: manual_def mount_def)
  show ?thesis
    using non_pdf_rejected_locally [OF ne, of "mount defaultValues" fetch_rejected] ne m
    by (simp add: mount_def defaultValues_def manual_def)
qed

subsection \<open>Manual edits of the technology list\<close>

text \<open>
  C8. \<open>addTechnology\<close> leaves the list as it is when the name is already in it
  (compared code unit by code unit) and otherwise appends the name at the end. Adding
  the same name a second time changes nothing, and the first add makes the list one
  element longer exactly when the name was absent.
\<close>

theorem addTechnology_idempotent:
  "technologies (formValues (addTechnology tech st)) =
     (if tech \<in> set (technologies (formValues st)) then technologies (formValues st)
      else technologies (formValues st) @ [tech])
   \<and> addTechnology tech (addTechnology tech st) = addTechnology tech st
   \<and> length (technologies (formValues (addTechnology tech st))) =
       (if tech \<in> set (technologies (formValues st)) then length (technologies (formValues st))
        else Suc (length (technologies (formValues st))))"
  by (simp add: addTechnology_def Let_def)

text \<open>
  The three manual writers keep a duplicate-free list duplicate-free: \<open>addTechnology\<close>
  by its \<open>includes\<close> guard, \<open>removeTechnology\<close> by filtering, \<open>clearResume\<close> by
  emptying the list.
\<close>

lemma manual_writers_keep_distinct:
  assumes "distinct (technologies (formValues st))"
  shows "distinct (technologies (formValues (addTechnology tech st)))"
    and "distinct (technologies (formValues (removeTechnology tech st)))"
    and "distinct (technologies (formValues (clearResume st)))"
  using assms by (simp_all add: addTechnology_def removeTechnology_def clearResume_def Let_def)

subsection \<open>Failed extractions\<close>

lemma catch_finally_manual: "manual (catch_finally st)"
  by (simp add: manual_def catch_finally_def)

text \<open>
  C2, as stated, fails: when the response has a success status and a body without a
  \<open>skills\<close> array, the component raises a warning and no error, stays in resume mode,
  keeps the attached file and keeps \<open>hasResume\<close> true.
\<close>

theorem failed_extraction_counterexample:
  "useResumeMode (handleResumeUpload (Some resume_pdf) (fetch_response 200 json_without_skills)
      (mount defaultValues))
   \<and> resumeFile (handleResumeUpload (Some resume_pdf) (fetch_response 200 json_without_skills)
      (mount defaultValues)) = Some resume_pdf
   \<and> hasResume (formValues (handleResumeUpload (Some resume_pdf)
      (fetch_response 200 json_without_skills) (mount defaultValues))) = Some True
   \<and> toasts (handleResumeUpload (Some resume_pdf) (fetch_response 200 json_without_skills)
      (mount defaultValues)) = [toast_warning ''No technologies found in resume'']"
  by (simp add: handleResumeUpload_def handleResumeUpload_send_def resume_pdf_def
      response_ok_def mount_def)

text \<open>
  C2, amended. When the request is rejected, comes back with a status outside 200 to
  299, or its body is not JSON or is \<open>null\<close>, the component raises the error
  notification, discards the attached file and is back in the manual state, and the
  draft's other fields are as they were. When a success status comes with a body whose
  \<open>skills\<close> is missing or not an array, the component raises a warning, ends the
  parsing and changes nothing else.
\<close>

theorem failed_extraction_reverts:
  "(throws outcome \<longrightarrow>
      toasts (handleResumeUpload_receive outcome st)
        = toasts st @ [toast_error ''Failed to parse resume. Please try again.'']
      \<and> resumeFile (handleResumeUpload_receive outcome st) = None
      \<and> manual (handleResumeUpload_receive outcome st)
      \<and> (formValues (handleResumeUpload_receive outcome st))\<lparr>hasResume := h\<rparr>
          = (formValues st)\<lparr>hasResume := h\<rparr>)
   \<and> (response_ok status \<longrightarrow>
      handleResumeUpload_receive (fetch_response status json_without_skills) st
        = st\<lparr>toasts := toasts st @ [toast_warning ''No technologies found in resume''],
             isParsingResume := False\<rparr>)"
  by (simp add: receive_throws catch_finally_manual) (simp add: catch_finally_def)

theorem failed_extraction_reverts_witness:
  "throws (fetch_response 500 not_json) \<and> throws fetch_rejected \<and> response_ok 200
   \<and> toasts (handleResumeUpload (Some resume_pdf) (fetch_response 500 not_json) (mount defaultValues))
       = [toast_error ''Failed to parse resume. Please try again.'']
   \<and> manual (handleResumeUpload (Some resume_pdf) (fetch_response 500 not_json) (mount defaultValues))
   \<and> manual (handleResumeUpload (Some resume_pdf) fetch_rejected (mount defaultValues))"
proof -
  have t1: "throws (fetch_response 500 not_json)" and t2: "throws fetch_rejected"
    and ok: "response_ok 200"
    by (simp_all add: response_ok_def)
  have s: "handleResumeUpload (Some resume_pdf) outcome (mount defaultValues)
      = handleResumeUpload_receive outcome
          (fst (handleResumeUpload_send (Some resume_pdf) (mount defaultValues)))" for outcome
    by (simp add: handleResumeUpload_def handleResumeUpload_send_def resume_pdf_def)
  have t0: "toasts (fst (handleResumeUpload_send (Some resume_pdf) (mount defaultValues))) = []"
    by (simp add: handleResumeUpload_send_def resume_pdf_def mount_def)
  show ?thesis
    using failed_extraction_reverts [of "fetch_response 500 not_json"
        "fst (handleResumeUpload_send (Some resume_pdf) (mount defaultValues))" None 200]
      failed_extraction_reverts [of fetch_rejected
        "fst (handleResumeUpload_send (Some resume_pdf) (mount defaultValues))" None 200]
      t1 t2 ok
    by (simp only: s t0) simp
qed

text \<open>
  The \<open>catch\<close> block does not touch the form's \<open>hasResume\<close>, which the first part of
  the handler has set; \<open>clearResume\<close> is the one place that resets it.
\<close>

lemma failed_extraction_keeps_hasResume:
  "hasResume (formValues (handleResumeUpload (Some resume_pdf) (fetch_response 500 not_json)
      (mount defaultValues))) = Some True
   \<and> hasResume (formValues (clearResume (handleResumeUpload (Some resume_pdf)
      (fetch_response 200 (json_skills [])) (mount defaultValues)))) = Some False"
  by (simp add: handleResumeUpload_def handleResumeUpload_send_def resume_pdf_def
      response_ok_def mount_def catch_finally_def clearResume_def)

subsection \<open>One request at a time\<close>











subsection \<open>Repeated names on the page\<close>

text \<open>
  C4, at the input Go, Go. The claim has the technology list duplicate-free in every
  reachable state. From the mounted form with its empty list, selecting resume.pdf and
  a successful extraction that reports Go, Go are two steps of the page, and they leave
  the list Go, Go, which has a repeated entry.
\<close>

theorem repeated_names_reachable:
  "technologies (formValues (component (page_mount defaultValues))) = []
   \<and> map_option (\<lambda>p. technologies (formValues (component p)))
        (run [change_resume (Some resume_pdf),
              fetch_settles 0 (fetch_response 200 (json_skills [utf16 ''Go'', utf16 ''Go'']))]
           (page_mount defaultValues)) = Some [utf16 ''Go'', utf16 ''Go'']
   \<and> \<not> distinct [utf16 ''Go'', utf16 ''Go'']"
  by (simp add: page_mount_def mount_def defaultValues_def handleResumeUpload_send_def
      resume_pdf_def response_ok_def)

end
